theory Spec2Isabelle
  imports Complex_Main
begin

section \<open>JavaScript values delivered by the backend\<close>

text \<open>
  Payloads reach the dashboard as parsed JSON. Numbers are the finite values JSON can
  carry and are kept exact as rationals; \<open>Undefined\<close> is what reading an absent property
  yields. An object is its list of key/value pairs, each key once, looked up with
  \<open>map_of\<close>.
\<close>

datatype jsval =
    Undefined
  | Null
  | Bool bool
  | Num rat
  | Str string
  | Arr "jsval list"
  | Obj "(string \<times> jsval) list"

datatype exn = TypeError | SyntaxError


text \<open>
  \<open>v.k\<close> for a data property \<open>k\<close>: reading a property of \<open>undefined\<close> or \<open>null\<close> throws
  a TypeError, an object yields the stored value or \<open>undefined\<close>, and primitives and
  arrays have none of the payload's field names.
\<close>

fun getprop :: "jsval \<Rightarrow> string \<Rightarrow> exn + jsval" where
  "getprop Undefined k = Inl TypeError"
| "getprop Null k = Inl TypeError"
| "getprop (Obj kvs) k = Inr (case map_of kvs k of None \<Rightarrow> Undefined | Some v \<Rightarrow> v)"
| "getprop v k = Inr Undefined"

text \<open>\<open>v.length\<close>: arrays and strings have a length of their own.\<close>

fun js_length :: "jsval \<Rightarrow> exn + jsval" where
  "js_length (Arr xs) = Inr (Num (of_nat (length xs)))"
| "js_length (Str s) = Inr (Num (of_nat (length s)))"
| "js_length v = getprop v ''length''"

text \<open>
  \<open>x > 0\<close>, applied to what \<open>.length\<close> gave. A number is compared as it is, a boolean as
  0 or 1; \<open>undefined\<close> and objects compare as NaN and \<open>null\<close> as 0, so they are not
  greater. JavaScript would convert a string or an array operand to a number first. That
  conversion is not modelled and such an operand counts as not greater; it can only come
  from an object that has an own \<open>length\<close> property holding a string or an array.
\<close>

fun js_gt0 :: "jsval \<Rightarrow> bool" where
  "js_gt0 (Num n) = (n > 0)"
| "js_gt0 (Bool b) = b"
| "js_gt0 v = False"

text \<open>\<open>v[0]\<close>.\<close>

fun js_index0 :: "jsval \<Rightarrow> jsval" where
  "js_index0 (Arr xs) = (case xs of [] \<Rightarrow> Undefined | x # _ \<Rightarrow> x)"
| "js_index0 (Str s) = (case s of [] \<Rightarrow> Undefined | c # _ \<Rightarrow> Str [c])"
| "js_index0 (Obj kvs) = (case map_of kvs ''0'' of None \<Rightarrow> Undefined | Some v \<Rightarrow> v)"
| "js_index0 v = Undefined"

section \<open>Rendered text\<close>

text \<open>
  Text put into the page. \<open>DollarFixed2 p\<close> is the template \<open>$${p.toFixed(2)}\<close>,
  \<open>Stringified v\<close> the string conversion of a non-string value, and \<open>LocaleDate v\<close> the
  text \<open>new Date(v).toLocaleString()\<close>; none of the three conversions can throw.
\<close>

datatype rendered =
    Literal string
  | DollarFixed2 rat
  | Stringified jsval
  | LocaleDate jsval

text \<open>Interpolation \<open>${v}\<close> inside a template literal.\<close>

fun interp :: "jsval \<Rightarrow> rendered" where
  "interp (Str s) = Literal s"
| "interp v = Stringified v"

text \<open>
  Assignment to \<open>textContent\<close>, a nullable string attribute: \<open>null\<close> and \<open>undefined\<close>
  clear the text.
\<close>

fun textContentOf :: "jsval \<Rightarrow> rendered" where
  "textContentOf (Str s) = Literal s"
| "textContentOf Undefined = Literal []"
| "textContentOf Null = Literal []"
| "textContentOf v = Stringified v"

text \<open>\<open>v.toFixed(2)\<close> exists on numbers only; on anything else the call throws.\<close>

fun toFixed2 :: "jsval \<Rightarrow> exn + rat" where
  "toFixed2 (Num n) = Inr n"
| "toFixed2 v = Inl TypeError"

text \<open>Lower case of the ASCII letters; every other character is kept.\<close>

definition lowerChar :: "char \<Rightarrow> char" where
  "lowerChar c =
     (case map_of (zip ''ABCDEFGHIJKLMNOPQRSTUVWXYZ'' ''abcdefghijklmnopqrstuvwxyz'') c of
        None \<Rightarrow> c
      | Some l \<Rightarrow> l)"

text \<open>\<open>v.toLowerCase()\<close> exists on strings only.\<close>

fun toLowerCase :: "jsval \<Rightarrow> exn + string" where
  "toLowerCase (Str s) = Inr (map lowerChar s)"
| "toLowerCase v = Inl TypeError"

section \<open>The page elements written by TradingDashboard (static/js/main.js)\<close>

text \<open>
  A table row made by \<open>createTradeRow\<close>: its six cells in order (symbol, type, price,
  quantity, status, timestamp).
\<close>

datatype row = TradeRow rendered rendered rendered rendered rendered rendered

text \<open>
  Each element is \<open>None\<close> when \<open>document.querySelector\<close> finds nothing. The status element
  carries its text and its class name; the trade table carries its rows, first row first.
\<close>

record dash =
  priceElement :: "rendered option"
  balanceElement :: "rendered option"
  statusElement :: "(rendered \<times> string) option"
  tradeTable :: "row list option"
  console :: "string list"

text \<open>
  A handler either returns the new page or throws, leaving the page as it was at the throw.
\<close>

type_synonym 'a result = "(exn \<times> 'a) + 'a"

definition createTradeRow :: "jsval \<Rightarrow> exn + row" where
  "createTradeRow trade =
     (case getprop trade ''symbol'' of
        Inl e \<Rightarrow> Inl e
      | Inr symbol \<Rightarrow>
          (case getprop trade ''type'' of
             Inl e \<Rightarrow> Inl e
           | Inr type \<Rightarrow>
               (case getprop trade ''price'' of
                  Inl e \<Rightarrow> Inl e
                | Inr price \<Rightarrow>
                    (case toFixed2 price of
                       Inl e \<Rightarrow> Inl e
                     | Inr p \<Rightarrow>
                         (case getprop trade ''quantity'' of
                            Inl e \<Rightarrow> Inl e
                          | Inr quantity \<Rightarrow>
                              (case getprop trade ''status'' of
                                 Inl e \<Rightarrow> Inl e
                               | Inr status \<Rightarrow>
                                   (case getprop trade ''timestamp'' of
                                      Inl e \<Rightarrow> Inl e
                                    | Inr timestamp \<Rightarrow>
                                        Inr (TradeRow (interp symbol) (interp type)
                                               (DollarFixed2 p) (interp quantity)
                                               (interp status) (LocaleDate timestamp)))))))))"

definition updateTradeHistory :: "jsval \<Rightarrow> dash \<Rightarrow> dash result" where
  "updateTradeHistory trades d =
     (case tradeTable d of
        None \<Rightarrow> Inr d
      | Some rows \<Rightarrow>
          (case js_length trades of
             Inl e \<Rightarrow> Inl (e, d)
           | Inr n \<Rightarrow>
               if js_gt0 n then
                 (case createTradeRow (js_index0 trades) of
                    Inl e \<Rightarrow> Inl (e, d)
                  | Inr newRow \<Rightarrow>
                      (let rows' = newRow # rows
                       in Inr (d\<lparr>tradeTable :=
                                 Some (if length rows' > 10 then butlast rows' else rows')\<rparr>)))
               else Inr d))"


text \<open>
  Reading \<open>data.k\<close> inside a handler: a throw leaves the page as it is, otherwise the
  handler goes on with the value.
\<close>

definition withProp :: "jsval \<Rightarrow> string \<Rightarrow> dash \<Rightarrow> (jsval \<Rightarrow> dash result) \<Rightarrow> dash result" where
  "withProp data k d f = (case getprop data k of Inl e \<Rightarrow> Inl (e, d) | Inr v \<Rightarrow> f v)"

definition updatePriceDisplay :: "jsval \<Rightarrow> dash \<Rightarrow> dash result" where
  "updatePriceDisplay price d =
     (case priceElement d of
        None \<Rightarrow> Inr d
      | Some old \<Rightarrow>
          (case toFixed2 price of
             Inl e \<Rightarrow> Inl (e, d)
           | Inr p \<Rightarrow> Inr (d\<lparr>priceElement := Some (DollarFixed2 p)\<rparr>)))"

definition updateBalanceDisplay :: "jsval \<Rightarrow> dash \<Rightarrow> dash result" where
  "updateBalanceDisplay balance d =
     (case balanceElement d of
        None \<Rightarrow> Inr d
      | Some old \<Rightarrow>
          (case toFixed2 balance of
             Inl e \<Rightarrow> Inl (e, d)
           | Inr b \<Rightarrow> Inr (d\<lparr>balanceElement := Some (DollarFixed2 b)\<rparr>)))"

text \<open>
  The text is assigned before the class name is computed, so a status that is not a
  string has already replaced the text when \<open>toLowerCase\<close> throws.
\<close>

definition updateBotStatus :: "jsval \<Rightarrow> dash \<Rightarrow> dash result" where
  "updateBotStatus status d =
     (case statusElement d of
        None \<Rightarrow> Inr d
      | Some (oldText, oldClass) \<Rightarrow>
          (let d1 = d\<lparr>statusElement := Some (textContentOf status, oldClass)\<rparr>
           in case toLowerCase status of
                Inl e \<Rightarrow> Inl (e, d1)
              | Inr low \<Rightarrow>
                  Inr (d1\<lparr>statusElement :=
                          Some (textContentOf status, ''bot-status status-'' @ low)\<rparr>)))"

definition handleWebSocketMessage :: "jsval \<Rightarrow> dash \<Rightarrow> dash result" where
  "handleWebSocketMessage data d =
     withProp data ''type'' d (\<lambda>ty.
       if ty = Str ''price_update'' then
         withProp data ''price'' d (\<lambda>price. updatePriceDisplay price d)
       else if ty = Str ''trade_update'' then
         withProp data ''trade'' d (\<lambda>trade. updateTradeHistory trade d)
       else if ty = Str ''balance_update'' then
         withProp data ''balance'' d (\<lambda>balance. updateBalanceDisplay balance d)
       else if ty = Str ''status_update'' then
         withProp data ''status'' d (\<lambda>status. updateBotStatus status d)
       else Inr d)"

text \<open>
  The \<open>onmessage\<close> handler of \<open>setupWebSocket\<close>. \<open>JSON.parse\<close> is the platform's parser,
  taken as a parameter: \<open>None\<close> is its SyntaxError. The handler has no \<open>try\<close>, so
  whatever is thrown inside leaves it.
\<close>

definition onmessage :: "(string \<Rightarrow> jsval option) \<Rightarrow> string \<Rightarrow> dash \<Rightarrow> dash result" where
  "onmessage JSON_parse event_data d =
     (case JSON_parse event_data of
        None \<Rightarrow> Inl (SyntaxError, d)
      | Some data \<Rightarrow> handleWebSocketMessage data d)"

text \<open>
  The 5-second poll, \<open>TradingDashboard.updateDashboardData\<close>, from the point where the
  awaited \<open>fetch\<close> and \<open>response.json()\<close> have settled: \<open>Inl\<close> is their rejection. The
  body runs inside \<open>try\<close>; the \<open>catch\<close> logs and returns.
\<close>

definition updateDashboardData_try :: "jsval \<Rightarrow> dash \<Rightarrow> dash result" where
  "updateDashboardData_try data d =
     withProp data ''current_price'' d (\<lambda>price.
       case updatePriceDisplay price d of
         Inl x \<Rightarrow> Inl x
       | Inr d1 \<Rightarrow>
           withProp data ''balance'' d1 (\<lambda>balance.
             case updateBalanceDisplay balance d1 of
               Inl x \<Rightarrow> Inl x
             | Inr d2 \<Rightarrow>
                 withProp data ''recent_trades'' d2 (\<lambda>trades.
                   case updateTradeHistory trades d2 of
                     Inl x \<Rightarrow> Inl x
                   | Inr d3 \<Rightarrow>
                       withProp data ''bot_status'' d3 (\<lambda>status.
                         updateBotStatus status d3))))"

definition TradingDashboard_updateDashboardData :: "exn + jsval \<Rightarrow> dash \<Rightarrow> dash" where
  "TradingDashboard_updateDashboardData response d =
     (case response of
        Inl e \<Rightarrow> d\<lparr>console := console d @ [''Failed to update dashboard data:'']\<rparr>
      | Inr data \<Rightarrow>
          (case updateDashboardData_try data d of
             Inl (e, d') \<Rightarrow> d'\<lparr>console := console d' @ [''Failed to update dashboard data:'']\<rparr>
           | Inr d' \<Rightarrow> d'))"


section \<open>Notifications (static/js/main.js)\<close>










section \<open>The page of DashboardSwitcher (the switcher script)\<close>

text \<open>
  \<open>parseInt\<close> yields an integer or NaN. Values are exact integers here; the rounding of
  integers beyond \<open>2^53\<close> is left out.
\<close>

datatype jsnum = NaN | IntVal int

definition isWhiteSpace :: "char \<Rightarrow> bool" where
  "isWhiteSpace c = (c \<in> {CHR 0x09, CHR 0x0A, CHR 0x0B, CHR 0x0C, CHR 0x0D, CHR '' ''})"

definition digitValue :: "char \<Rightarrow> nat option" where
  "digitValue c =
     (case map_of (zip ''0123456789abcdefghijklmnopqrstuvwxyz''
                      [0, 1, 2, 3, 4, 5, 6, 7, 8, 9, 10, 11, 12, 13, 14, 15, 16, 17, 18, 19,
                       20, 21, 22, 23, 24, 25, 26, 27, 28, 29, 30, 31, 32, 33, 34, 35]) c of
        Some v \<Rightarrow> Some v
      | None \<Rightarrow>
          map_of (zip ''ABCDEFGHIJKLMNOPQRSTUVWXYZ''
                      [10, 11, 12, 13, 14, 15, 16, 17, 18, 19, 20, 21, 22,
                       23, 24, 25, 26, 27, 28, 29, 30, 31, 32, 33, 34, 35]) c)"

text \<open>
  \<open>parseInt(str)\<close> without a radix: leading white space, a sign, \<open>0x\<close> for base 16, then
  the longest run of digits; NaN when there is none.
\<close>

definition parseInt :: "string \<Rightarrow> jsnum" where
  "parseInt str =
     (let s1 = dropWhile isWhiteSpace str;
          neg = (case s1 of [] \<Rightarrow> False | c # r \<Rightarrow> c = CHR ''-'');
          s2 = (case s1 of [] \<Rightarrow> s1
                | c # r \<Rightarrow> if c = CHR ''-'' \<or> c = CHR ''+'' then r else s1);
          hex = (case s2 of a # b # r \<Rightarrow> a = CHR ''0'' \<and> (b = CHR ''x'' \<or> b = CHR ''X'')
                 | _ \<Rightarrow> False);
          radix = (if hex then 16 else 10 :: nat);
          s3 = (if hex then drop 2 s2 else s2);
          ds = takeWhile (\<lambda>c. case digitValue c of None \<Rightarrow> False | Some v \<Rightarrow> v < radix) s3;
          n = foldl (\<lambda>acc c. acc * int radix
                       + int (case digitValue c of None \<Rightarrow> 0 | Some v \<Rightarrow> v)) 0 ds
      in if ds = [] then NaN else IntVal (if neg then - n else n))"

fun showNat :: "nat \<Rightarrow> string" where
  "showNat n =
     (if n < 10 then [''0123456789'' ! n]
      else showNat (n div 10) @ [''0123456789'' ! (n mod 10)])"

declare showNat.simps [simp del]

text \<open>The string a number becomes when it is stored or spliced into a selector.\<close>

fun numberToString :: "jsnum \<Rightarrow> string" where
  "numberToString NaN = ''NaN''"
| "numberToString (IntVal i) = (if i < 0 then CHR ''-'' # showNat (nat (- i)) else showNat (nat i))"

text \<open>What an interval timer runs, and the calls the script makes on its collaborators.\<close>

datatype callback = RefreshData | PollDashboardData

datatype call = Fetch string | ThemeApplied string

text \<open>
  The one kind of listener the script puts on the \<open>prefers-color-scheme\<close> media query:
  the closure of \<open>enableAutoTheme\<close>.
\<close>

datatype listener = ReapplyTheme

text \<open>
  The switcher's fields (\<open>refreshInterval\<close> is \<open>undefined\<close> until a timer is armed), the
  origin's \<open>localStorage\<close>, the system colour scheme, and the parts of the document the
  script touches. A switcher or view container is its attribute value and whether it
  carries the class \<open>active\<close>, in document order; \<open>dashboardContainer\<close> is the class list
  of \<open>.dashboard-container\<close>, \<open>None\<close> when there is no such element;
  \<open>tradeFilterInputs\<close> counts the \<open>input\<close> listeners on each trade filter input.
  \<open>intervals\<close> are the running interval timers: identity, callback, delay in ms; timer
  identities are handed out from \<open>nextTimer\<close>. \<open>calls\<close> logs requests issued and themes
  applied, oldest first. Attribute values spliced into selectors are taken to be free of
  quotes and backslashes, and layout names free of white space.
\<close>

record page =
  currentView :: string
  currentTheme :: string
  refreshInterval :: "nat option"
  localStorage :: "string \<rightharpoonup> string"
  prefersDark :: bool
  bodyTheme :: "string option"
  rootStyle :: "string \<rightharpoonup> string"
  viewContainers :: "(string \<times> bool) list"
  viewSwitchers :: "(string \<times> bool) list"
  themeSwitchers :: "(string \<times> bool) list"
  layoutSwitchers :: "(string \<times> bool) list"
  refreshSwitchers :: "(string \<times> bool) list"
  dashboardContainer :: "string list option"
  tradeFilterInputs :: "nat list"
  schemeListeners :: "listener list"
  intervals :: "(nat \<times> callback \<times> nat) list"
  nextTimer :: nat
  calls :: "call list"

text \<open>\<open>querySelectorAll(..).forEach(el => el.classList.remove('active'))\<close>.\<close>

definition deactivateAll :: "(string \<times> bool) list \<Rightarrow> (string \<times> bool) list" where
  "deactivateAll els = map (\<lambda>el. (fst el, False)) els"

text \<open>\<open>querySelector\<close> finds the first match; it alone gets the class.\<close>

fun activateFirst :: "string \<Rightarrow> (string \<times> bool) list \<Rightarrow> (string \<times> bool) list" where
  "activateFirst v [] = []"
| "activateFirst v (el # els) =
     (if fst el = v then (fst el, True) # els else el # activateFirst v els)"

definition loadDashboardData :: "page \<Rightarrow> page" where
  "loadDashboardData s = s\<lparr>calls := calls s @ [Fetch ''/api/dashboard-data'']\<rparr>"

definition loadTradeHistory :: "page \<Rightarrow> page" where
  "loadTradeHistory s = s\<lparr>calls := calls s @ [Fetch ''/api/trade-history'']\<rparr>"

definition loadAnalyticsData :: "page \<Rightarrow> page" where
  "loadAnalyticsData s = s\<lparr>calls := calls s @ [Fetch ''/api/analytics-data'']\<rparr>"

definition loadSettings :: "page \<Rightarrow> page" where
  "loadSettings s = s\<lparr>calls := calls s @ [Fetch ''/api/settings'']\<rparr>"

text \<open>The chart set-up functions have empty bodies as far as the page goes.\<close>

definition setupDashboardCharts :: "page \<Rightarrow> page" where
  "setupDashboardCharts s = s"

definition setupAnalyticsCharts :: "page \<Rightarrow> page" where
  "setupAnalyticsCharts s = s"

definition setupTradeFilters :: "page \<Rightarrow> page" where
  "setupTradeFilters s = s\<lparr>tradeFilterInputs := map Suc (tradeFilterInputs s)\<rparr>"

definition initializeDashboard :: "page \<Rightarrow> page" where
  "initializeDashboard s = setupDashboardCharts (loadDashboardData s)"

definition initializeTradesView :: "page \<Rightarrow> page" where
  "initializeTradesView s = setupTradeFilters (loadTradeHistory s)"

definition initializeAnalyticsView :: "page \<Rightarrow> page" where
  "initializeAnalyticsView s = setupAnalyticsCharts (loadAnalyticsData s)"

definition initializeSettingsView :: "page \<Rightarrow> page" where
  "initializeSettingsView s = loadSettings s"

definition initializeView :: "string \<Rightarrow> page \<Rightarrow> page" where
  "initializeView view s =
     (if view = ''dashboard'' then initializeDashboard s
      else if view = ''trades'' then initializeTradesView s
      else if view = ''analytics'' then initializeAnalyticsView s
      else if view = ''settings'' then initializeSettingsView s
      else s)"

definition switchView :: "string \<Rightarrow> page \<Rightarrow> page" where
  "switchView view s =
     initializeView view
       (s\<lparr>viewContainers := activateFirst view (deactivateAll (viewContainers s)),
          viewSwitchers := activateFirst view (deactivateAll (viewSwitchers s)),
          currentView := view,
          localStorage := (localStorage s)(''dashboard-view'' \<mapsto> view)\<rparr>)"

definition applyTheme :: "string \<Rightarrow> page \<Rightarrow> page" where
  "applyTheme theme s =
     s\<lparr>bodyTheme := Some theme,
       rootStyle :=
         (if theme = ''dark'' then
            (rootStyle s)(''--primary-color'' \<mapsto> ''#3b82f6'',
                          ''--secondary-color'' \<mapsto> ''#94a3b8'',
                          ''--dark-color'' \<mapsto> ''#f8fafc'',
                          ''--light-color'' \<mapsto> ''#1e293b'',
                          ''--border-color'' \<mapsto> ''#334155'')
          else
            (rootStyle s)(''--primary-color'' \<mapsto> ''#2563eb'',
                          ''--secondary-color'' \<mapsto> ''#64748b'',
                          ''--dark-color'' \<mapsto> ''#1e293b'',
                          ''--light-color'' \<mapsto> ''#f8fafc'',
                          ''--border-color'' \<mapsto> ''#e2e8f0'')),
       calls := calls s @ [ThemeApplied theme]\<rparr>"

text \<open>
  \<open>switchTheme\<close> and \<open>enableAutoTheme\<close> call each other, but \<open>enableAutoTheme\<close> only ever
  passes \<open>'dark'\<close> or \<open>'light'\<close>, which takes \<open>switchTheme\<close> past its first \<open>if\<close>. That
  remainder of \<open>switchTheme\<close> is \<open>switchTheme_concrete\<close>.
\<close>

definition switchTheme_concrete :: "string \<Rightarrow> page \<Rightarrow> page" where
  "switchTheme_concrete theme s =
     (let s1 = applyTheme theme (s\<lparr>currentTheme := theme\<rparr>);
          s2 = s1\<lparr>localStorage := (localStorage s1)(''dashboard-theme'' \<mapsto> theme)\<rparr>
      in s2\<lparr>themeSwitchers := activateFirst theme (deactivateAll (themeSwitchers s2))\<rparr>)"

definition enableAutoTheme :: "page \<Rightarrow> page" where
  "enableAutoTheme s =
     (let theme = (if prefersDark s then ''dark'' else ''light'');
          s1 = switchTheme_concrete theme s;
          s2 = s1\<lparr>localStorage := (localStorage s1)(''dashboard-theme'' \<mapsto> ''auto'')\<rparr>
      in s2\<lparr>schemeListeners := schemeListeners s2 @ [ReapplyTheme]\<rparr>)"

definition switchTheme :: "string \<Rightarrow> page \<Rightarrow> page" where
  "switchTheme theme s =
     (if theme = ''auto'' then enableAutoTheme s else switchTheme_concrete theme s)"

text \<open>
  The media query reporting a change: the system setting is what it now is, and each
  registered listener runs, in the order of registration.
\<close>

fun runListener :: "listener \<Rightarrow> bool \<Rightarrow> page \<Rightarrow> page" where
  "runListener ReapplyTheme matches s = applyTheme (if matches then ''dark'' else ''light'') s"

definition schemeChange :: "bool \<Rightarrow> page \<Rightarrow> page" where
  "schemeChange matches s =
     foldl (\<lambda>acc l. runListener l matches acc) (s\<lparr>prefersDark := matches\<rparr>) (schemeListeners s)"

text \<open>\<open>classList.remove\<close> of several names, and \<open>classList.add\<close>, which adds no duplicate.\<close>

definition removeClasses :: "string list \<Rightarrow> string list \<Rightarrow> string list" where
  "removeClasses names cls = filter (\<lambda>c. c \<notin> set names) cls"

definition addClass :: "string \<Rightarrow> string list \<Rightarrow> string list" where
  "addClass c cls = (if c \<in> set cls then cls else cls @ [c])"

definition applyLayout :: "string \<Rightarrow> page \<Rightarrow> page" where
  "applyLayout layout s =
     s\<lparr>dashboardContainer :=
         map_option
           (\<lambda>cls. addClass (''layout-'' @ layout)
                    (removeClasses [''layout-grid'', ''layout-list'', ''layout-compact''] cls))
           (dashboardContainer s)\<rparr>"

definition switchLayout :: "string \<Rightarrow> page \<Rightarrow> page" where
  "switchLayout layout s =
     s\<lparr>dashboardContainer :=
         map_option
           (\<lambda>cls. addClass (''layout-'' @ layout)
                    (removeClasses [''layout-grid'', ''layout-list'', ''layout-compact''] cls))
           (dashboardContainer s),
       localStorage := (localStorage s)(''dashboard-layout'' \<mapsto> layout),
       layoutSwitchers := activateFirst layout (deactivateAll (layoutSwitchers s))\<rparr>"

text \<open>The platform's timers: a fresh identity per timer; clearing an unknown one does nothing.\<close>

definition clearInterval :: "nat \<Rightarrow> page \<Rightarrow> page" where
  "clearInterval i s = s\<lparr>intervals := filter (\<lambda>t. fst t \<noteq> i) (intervals s)\<rparr>"

definition setInterval :: "callback \<Rightarrow> nat \<Rightarrow> page \<Rightarrow> nat \<times> page" where
  "setInterval cb delay s =
     (nextTimer s,
      s\<lparr>intervals := intervals s @ [(nextTimer s, cb, delay)], nextTimer := Suc (nextTimer s)\<rparr>)"

text \<open>\<open>if (this.refreshInterval)\<close> holds for a timer identity other than 0.\<close>

definition setRefreshRate :: "jsnum \<Rightarrow> page \<Rightarrow> page" where
  "setRefreshRate seconds s =
     (let s1 = (case refreshInterval s of
                  None \<Rightarrow> s
                | Some i \<Rightarrow> if i \<noteq> 0 then clearInterval i s else s);
          s2 = (case seconds of
                  NaN \<Rightarrow> s1
                | IntVal n \<Rightarrow>
                    if n > 0 then
                      (case setInterval RefreshData (nat (n * 1000)) s1 of
                         (i, s') \<Rightarrow> s'\<lparr>refreshInterval := Some i\<rparr>)
                    else s1);
          s3 = s2\<lparr>localStorage :=
                    (localStorage s2)(''dashboard-refresh-rate'' \<mapsto> numberToString seconds)\<rparr>
      in s3\<lparr>refreshSwitchers :=
               activateFirst (numberToString seconds) (deactivateAll (refreshSwitchers s3))\<rparr>)"

text \<open>\<open>getItem\<close> gives \<open>null\<close> for an absent key; \<open>if (saved)\<close> also skips the empty string.\<close>

definition loadSavedSettings :: "page \<Rightarrow> page" where
  "loadSavedSettings s =
     (let s1 = (case localStorage s ''dashboard-theme'' of
                  None \<Rightarrow> s
                | Some savedTheme \<Rightarrow>
                    if savedTheme \<noteq> [] then applyTheme savedTheme (s\<lparr>currentTheme := savedTheme\<rparr>)
                    else s);
          s2 = (case localStorage s1 ''dashboard-view'' of
                  None \<Rightarrow> s1
                | Some savedView \<Rightarrow>
                    if savedView \<noteq> [] then switchView savedView (s1\<lparr>currentView := savedView\<rparr>)
                    else s1);
          s3 = (case localStorage s2 ''dashboard-layout'' of
                  None \<Rightarrow> s2
                | Some savedLayout \<Rightarrow>
                    if savedLayout \<noteq> [] then applyLayout savedLayout s2 else s2)
      in case localStorage s3 ''dashboard-refresh-rate'' of
           None \<Rightarrow> s3
         | Some savedRefreshRate \<Rightarrow>
             if savedRefreshRate \<noteq> [] then setRefreshRate (parseInt savedRefreshRate) s3
             else s3)"

text \<open>
  The constructor sets the two defaults and runs \<open>init\<close>. After \<open>loadSavedSettings\<close>,
  \<open>init\<close> only registers click listeners on the switchers; what those listeners call are
  the operations below.
\<close>

definition init :: "page \<Rightarrow> page" where
  "init s = loadSavedSettings s"

definition constructor :: "page \<Rightarrow> page" where
  "constructor s = init (s\<lparr>currentView := ''dashboard'', currentTheme := ''light''\<rparr>)"

datatype op =
    SwitchView string
  | SwitchTheme string
  | EnableAutoTheme
  | SwitchLayout string
  | SetRefreshRate jsnum
  | LoadSavedSettings
  | SchemeChange bool

fun exec :: "op \<Rightarrow> page \<Rightarrow> page" where
  "exec (SwitchView v) s = switchView v s"
| "exec (SwitchTheme t) s = switchTheme t s"
| "exec EnableAutoTheme s = enableAutoTheme s"
| "exec (SwitchLayout l) s = switchLayout l s"
| "exec (SetRefreshRate n) s = setRefreshRate n s"
| "exec LoadSavedSettings s = loadSavedSettings s"
| "exec (SchemeChange m) s = schemeChange m s"

fun run :: "op list \<Rightarrow> page \<Rightarrow> page" where
  "run [] s = s"
| "run (x # xs) s = run xs (exec x s)"

text \<open>How often a run turns the auto theme on.\<close>

fun autoActivations :: "op list \<Rightarrow> nat" where
  "autoActivations [] = 0"
| "autoActivations (SwitchTheme t # xs) = (if t = ''auto'' then 1 else 0) + autoActivations xs"
| "autoActivations (EnableAutoTheme # xs) = 1 + autoActivations xs"
| "autoActivations (x # xs) = autoActivations xs"


section \<open>Sample data\<close>

text \<open>A page with all four elements present and an empty trade table.\<close>

definition sampleDash :: dash where
  "sampleDash =
     \<lparr>priceElement = Some (Literal ''$0.00''), balanceElement = Some (Literal ''$0.00''),
      statusElement = Some (Literal ''Stopped'', ''bot-status status-stopped''),
      tradeTable = Some [], console = []\<rparr>"





text \<open>
  A page as the constructor finds it: two of the views mounted, the poll of
  \<open>TradingDashboard\<close> already running as timer 1, the system set to dark.
\<close>

definition samplePage :: page where
  "samplePage =
     \<lparr>currentView = ''dashboard'', currentTheme = ''light'', refreshInterval = None,
      localStorage = Map.empty, prefersDark = True, bodyTheme = None, rootStyle = Map.empty,
      viewContainers = [(''dashboard'', True), (''analytics'', False)],
      viewSwitchers = [(''dashboard'', True), (''trades'', False), (''analytics'', False)],
      themeSwitchers = [(''light'', False), (''dark'', False), (''auto'', False)],
      layoutSwitchers = [(''grid'', True), (''list'', False), (''compact'', False)],
      refreshSwitchers = [(''0'', True), (''5'', False), (''30'', False)],
      dashboardContainer = Some [''dashboard-container'', ''layout-grid''],
      tradeFilterInputs = [0],
      schemeListeners = [],
      intervals = [(1, PollDashboardData, 5000)],
      nextTimer = 2,
      calls = []\<rparr>"



section \<open>Properties\<close>

subsection \<open>The recent-activity window\<close>







subsection \<open>The refresh timer\<close>












subsection \<open>Theme switches and the system colour scheme\<close>

lemma schemeChange_fold:
  "schemeChange m s =
     foldl (\<lambda>acc l. applyTheme (if m then ''dark'' else ''light'') acc)
       (s\<lparr>prefersDark := m\<rparr>) (schemeListeners s)"
proof -
  have "(\<lambda>acc l. runListener l m acc) = (\<lambda>acc l. applyTheme (if m then ''dark'' else ''light'') acc)"
  proof (intro ext)
    fix acc l show "runListener l m acc = applyTheme (if m then ''dark'' else ''light'') acc"
      by (cases l) simp
  qed
  then show ?thesis by (simp add: schemeChange_def)
qed

lemma rootStyle_applyTheme_twice:
  "rootStyle (applyTheme t (applyTheme t s)) = rootStyle (applyTheme t s)"
  by (rule ext) (simp add: applyTheme_def)

lemma applyTheme_fold_calls:
  "calls (foldl (\<lambda>acc l. applyTheme t acc) s ls) =
     calls s @ replicate (length ls) (ThemeApplied t)"
  by (induction ls arbitrary: s) (simp_all add: applyTheme_def replicate_app_Cons_same)

lemma applyTheme_fold_bodyTheme:
  "bodyTheme (foldl (\<lambda>acc l. applyTheme t acc) s ls) =
     (if ls = [] then bodyTheme s else Some t)"
  by (induction ls arbitrary: s) (simp_all add: applyTheme_def)

lemma applyTheme_fold_rootStyle:
  "rootStyle (foldl (\<lambda>acc l. applyTheme t acc) s ls) =
     (if ls = [] then rootStyle s else rootStyle (applyTheme t s))"
  by (induction ls arbitrary: s) (simp_all add: rootStyle_applyTheme_twice)

lemma applyTheme_fold_frame:
  "currentTheme (foldl (\<lambda>acc l. applyTheme t acc) s ls) = currentTheme s
   \<and> localStorage (foldl (\<lambda>acc l. applyTheme t acc) s ls) = localStorage s
   \<and> schemeListeners (foldl (\<lambda>acc l. applyTheme t acc) s ls) = schemeListeners s"
  by (induction ls arbitrary: s) (simp_all add: applyTheme_def)

lemma schemeListeners_switchView: "schemeListeners (switchView v s) = schemeListeners s"
  by (simp add: switchView_def initializeView_def initializeDashboard_def
        initializeTradesView_def initializeAnalyticsView_def initializeSettingsView_def
        loadDashboardData_def loadTradeHistory_def loadAnalyticsData_def loadSettings_def
        setupDashboardCharts_def setupAnalyticsCharts_def setupTradeFilters_def)

lemma schemeListeners_applyTheme: "schemeListeners (applyTheme t s) = schemeListeners s"
  by (simp add: applyTheme_def)

lemma schemeListeners_switchTheme_concrete:
  "schemeListeners (switchTheme_concrete t s) = schemeListeners s"
  by (simp add: switchTheme_concrete_def Let_def applyTheme_def)

lemma schemeListeners_enableAutoTheme:
  "schemeListeners (enableAutoTheme s) = schemeListeners s @ [ReapplyTheme]"
  by (simp add: enableAutoTheme_def Let_def schemeListeners_switchTheme_concrete)

lemma schemeListeners_switchLayout: "schemeListeners (switchLayout l s) = schemeListeners s"
  by (simp add: switchLayout_def)

lemma schemeListeners_applyLayout: "schemeListeners (applyLayout l s) = schemeListeners s"
  by (simp add: applyLayout_def)

lemma schemeListeners_setRefreshRate: "schemeListeners (setRefreshRate n s) = schemeListeners s"
  by (cases n)
     (simp_all add: setRefreshRate_def Let_def setInterval_def clearInterval_def
               split: option.splits)

lemma schemeListeners_loadSavedSettings:
  "schemeListeners (loadSavedSettings s) = schemeListeners s"
  by (simp add: loadSavedSettings_def Let_def schemeListeners_switchView
        schemeListeners_applyTheme schemeListeners_applyLayout schemeListeners_setRefreshRate
      split: option.splits)

lemma schemeListeners_schemeChange: "schemeListeners (schemeChange m s) = schemeListeners s"
  by (simp add: schemeChange_fold applyTheme_fold_frame)

lemma schemeListeners_exec:
  "schemeListeners (exec x s) = schemeListeners s @ replicate (autoActivations [x]) ReapplyTheme"
  by (cases x)
     (simp_all add: schemeListeners_switchView switchTheme_def schemeListeners_enableAutoTheme
        schemeListeners_switchTheme_concrete schemeListeners_switchLayout
        schemeListeners_setRefreshRate schemeListeners_loadSavedSettings
        schemeListeners_schemeChange)

lemma autoActivations_Cons: "autoActivations (x # xs) = autoActivations [x] + autoActivations xs"
  by (cases x) simp_all

lemma schemeListeners_run:
  "schemeListeners (run ops s) = schemeListeners s @ replicate (autoActivations ops) ReapplyTheme"
proof (induction ops arbitrary: s)
  case Nil
  show ?case by simp
next
  case (Cons x xs)
  have "autoActivations (x # xs) = autoActivations [x] + autoActivations xs"
    by (rule autoActivations_Cons)
  then show ?case
    by (simp only: run.simps Cons.IH schemeListeners_exec append_assoc replicate_add)
qed

lemma rootStyle_applyTheme_prefersDark:
  "rootStyle (applyTheme t (s\<lparr>prefersDark := m\<rparr>)) = rootStyle (applyTheme t s)"
  by (simp add: applyTheme_def)

text \<open>
  Claim C10. \<open>enableAutoTheme\<close>, reached directly or through \<open>switchTheme('auto')\<close>, puts
  one more listener on the media query. No operation takes a listener away: after any
  run the listeners are those there before, followed by one per activation of the auto
  theme. A change of the system colour scheme then applies the resolved theme once per
  listener, so after \<open>k\<close> activations on a page that had no listener it is applied \<open>k\<close>
  times.
\<close>

theorem auto_theme_listeners_accumulate:
  "schemeListeners (enableAutoTheme s) = schemeListeners s @ [ReapplyTheme]
   \<and> schemeListeners (switchTheme ''auto'' s) = schemeListeners s @ [ReapplyTheme]
   \<and> schemeListeners (run ops s) = schemeListeners s @ replicate (autoActivations ops) ReapplyTheme
   \<and> calls (schemeChange m (run ops s)) =
       calls (run ops s) @ replicate (length (schemeListeners s) + autoActivations ops)
                             (ThemeApplied (if m then ''dark'' else ''light''))"
  by (simp add: schemeListeners_enableAutoTheme switchTheme_def schemeListeners_run
        schemeChange_fold applyTheme_fold_calls replicate_add)

text \<open>
  Claim C1, as stated, fails: with the system set to dark, \<open>switchTheme('auto')\<close> followed
  by the explicit \<open>switchTheme('dark')\<close> leaves dark applied, and the system then changing
  to light replaces it by light.
\<close>

theorem explicit_theme_overridden_counterexample:
  "bodyTheme (run [SwitchTheme ''auto'', SwitchTheme ''dark''] samplePage) = Some ''dark''
   \<and> bodyTheme (schemeChange False (run [SwitchTheme ''auto'', SwitchTheme ''dark''] samplePage)) =
       Some ''light''"
  by (simp add: switchTheme_def enableAutoTheme_def switchTheme_concrete_def applyTheme_def
        schemeChange_def samplePage_def Let_def)

text \<open>
  Claim C1, amended. If no listener was registered and the run never turned the auto
  theme on, a change of the system colour scheme changes nothing on the page (only the
  system setting itself is different). If the run turned the auto theme on at any point,
  the listener is still there whatever was chosen afterwards, and the change applies the
  theme resolved from the new system setting. In either case the switcher's
  \<open>currentTheme\<close> and the stored preference stay as they were.
\<close>

theorem system_change_after_theme_switches:
  "(schemeListeners s = [] \<and> autoActivations ops = 0 \<longrightarrow>
      schemeChange m (run ops s) = (run ops s)\<lparr>prefersDark := m\<rparr>)
   \<and> (0 < autoActivations ops \<longrightarrow>
        bodyTheme (schemeChange m (run ops s)) = Some (if m then ''dark'' else ''light'')
        \<and> rootStyle (schemeChange m (run ops s)) =
            rootStyle (applyTheme (if m then ''dark'' else ''light'') (run ops s)))
   \<and> currentTheme (schemeChange m (run ops s)) = currentTheme (run ops s)
   \<and> localStorage (schemeChange m (run ops s)) = localStorage (run ops s)"
proof (intro conjI impI)
  assume "schemeListeners s = [] \<and> autoActivations ops = 0"
  then have "schemeListeners (run ops s) = []" by (simp add: schemeListeners_run)
  then show "schemeChange m (run ops s) = (run ops s)\<lparr>prefersDark := m\<rparr>"
    by (simp add: schemeChange_def)
next
  assume "0 < autoActivations ops"
  then have ne: "schemeListeners (run ops s) \<noteq> []" by (simp add: schemeListeners_run)
  then show "bodyTheme (schemeChange m (run ops s)) = Some (if m then ''dark'' else ''light'')"
    by (simp add: schemeChange_fold applyTheme_fold_bodyTheme)
  from ne show "rootStyle (schemeChange m (run ops s)) =
            rootStyle (applyTheme (if m then ''dark'' else ''light'') (run ops s))"
    by (simp add: schemeChange_fold applyTheme_fold_rootStyle rootStyle_applyTheme_prefersDark)
next
  show "currentTheme (schemeChange m (run ops s)) = currentTheme (run ops s)"
    by (simp add: schemeChange_fold applyTheme_fold_frame)
  show "localStorage (schemeChange m (run ops s)) = localStorage (run ops s)"
    by (simp add: schemeChange_fold applyTheme_fold_frame)
qed

theorem system_change_after_theme_switches_witness:
  "schemeChange False (run [SwitchTheme ''light'', SwitchTheme ''dark''] samplePage) =
     (run [SwitchTheme ''light'', SwitchTheme ''dark''] samplePage)\<lparr>prefersDark := False\<rparr>
   \<and> bodyTheme (schemeChange False (run [SwitchTheme ''auto'', SwitchTheme ''dark''] samplePage)) =
       Some ''light''"
proof -
  have a: "schemeListeners samplePage = [] \<and> autoActivations [SwitchTheme ''light'', SwitchTheme ''dark''] = 0"
    by (simp add: samplePage_def)
  have b: "0 < autoActivations [SwitchTheme ''auto'', SwitchTheme ''dark'']"
    by simp
  from system_change_after_theme_switches[of samplePage "[SwitchTheme ''light'', SwitchTheme ''dark'']" False] a
       system_change_after_theme_switches[of samplePage "[SwitchTheme ''auto'', SwitchTheme ''dark'']" False] b
  show ?thesis by simp
qed

subsection \<open>Switching views\<close>

lemmas init_defs = initializeView_def initializeDashboard_def
        initializeTradesView_def initializeAnalyticsView_def initializeSettingsView_def
        loadDashboardData_def loadTradeHistory_def loadAnalyticsData_def loadSettings_def
        setupDashboardCharts_def setupAnalyticsCharts_def setupTradeFilters_def

lemma deactivateAll_activateFirst: "deactivateAll (activateFirst v els) = deactivateAll els"
  by (induction els) (simp_all add: deactivateAll_def)

lemma initializeView_frame:
  "viewContainers (initializeView v s) = viewContainers s
   \<and> viewSwitchers (initializeView v s) = viewSwitchers s
   \<and> currentView (initializeView v s) = currentView s
   \<and> localStorage (initializeView v s) = localStorage s"
  by (simp add: init_defs)

lemma switchView_fields:
  "viewContainers (switchView v s) = activateFirst v (deactivateAll (viewContainers s))
   \<and> viewSwitchers (switchView v s) = activateFirst v (deactivateAll (viewSwitchers s))
   \<and> currentView (switchView v s) = v
   \<and> localStorage (switchView v s) = (localStorage s)(''dashboard-view'' \<mapsto> v)"
  by (simp add: switchView_def initializeView_frame)

lemma deactivateAll_idem: "deactivateAll (deactivateAll els) = deactivateAll els"
  by (simp add: deactivateAll_def)

lemma switchView_twice: "switchView v (switchView v s) = initializeView v (switchView v s)"
proof -
  let ?X = "switchView v s"
  have a: "activateFirst v (deactivateAll (viewContainers ?X)) = viewContainers ?X"
    by (simp add: switchView_fields deactivateAll_activateFirst deactivateAll_idem)
  have b: "activateFirst v (deactivateAll (viewSwitchers ?X)) = viewSwitchers ?X"
    by (simp add: switchView_fields deactivateAll_activateFirst deactivateAll_idem)
  have c: "v = currentView ?X"
    by (simp add: switchView_fields)
  have d: "(localStorage ?X)(''dashboard-view'' \<mapsto> v) = localStorage ?X"
    by (simp add: switchView_fields)
  have "?X\<lparr>viewContainers := activateFirst v (deactivateAll (viewContainers ?X)),
            viewSwitchers := activateFirst v (deactivateAll (viewSwitchers ?X)),
            currentView := v,
            localStorage := (localStorage ?X)(''dashboard-view'' \<mapsto> v)\<rparr> = ?X"
    unfolding a b d by (subst c) simp
  then show ?thesis
    by (subst switchView_def[of v ?X]) (simp only:)
qed




text \<open>
  Claim C6, as stated, fails: the dashboard view's data request goes out on the first
  \<open>switchView('dashboard')\<close> and again on the second.
\<close>

theorem switchView_twice_counterexample:
  "calls (switchView ''dashboard'' samplePage) = [Fetch ''/api/dashboard-data'']
   \<and> calls (switchView ''dashboard'' (switchView ''dashboard'' samplePage)) =
       [Fetch ''/api/dashboard-data'', Fetch ''/api/dashboard-data'']"
  by (simp add: switchView_def init_defs samplePage_def)

text \<open>
  Claim C6, amended. A second \<open>switchView(v)\<close> right after the first changes nothing about
  which container and which switcher are active, the recorded view or the stored
  preference; what it does is run the view's initialization once more. For the dashboard
  view that is one more request for \<open>/api/dashboard-data\<close>.
\<close>

theorem switchView_twice_reinitializes:
  "switchView v (switchView v s) = initializeView v (switchView v s)
   \<and> viewContainers (switchView v (switchView v s)) = viewContainers (switchView v s)
   \<and> viewSwitchers (switchView v (switchView v s)) = viewSwitchers (switchView v s)
   \<and> currentView (switchView v (switchView v s)) = currentView (switchView v s)
   \<and> localStorage (switchView v (switchView v s)) = localStorage (switchView v s)
   \<and> calls (switchView ''dashboard'' (switchView ''dashboard'' s)) =
       calls (switchView ''dashboard'' s) @ [Fetch ''/api/dashboard-data'']"
  by (simp add: switchView_twice initializeView_frame)
     (simp add: init_defs)




subsection \<open>Reloading saved settings\<close>

text \<open>
  Claim C5 at the theme \<open>'auto'\<close>, with the system set to dark. Choosing it directly
  stores \<open>'auto'\<close>, applies the dark theme and registers the listener. A new page built
  over that storage gets \<open>'auto'\<close> as its theme attribute, the light tokens and no
  listener.
\<close>

theorem saved_auto_theme_not_restored:
  "localStorage (switchTheme ''auto'' samplePage) ''dashboard-theme'' = Some ''auto''
   \<and> bodyTheme (switchTheme ''auto'' samplePage) = Some ''dark''
   \<and> rootStyle (switchTheme ''auto'' samplePage) ''--primary-color'' = Some ''#3b82f6''
   \<and> schemeListeners (switchTheme ''auto'' samplePage) = [ReapplyTheme]
   \<and> bodyTheme (constructor (samplePage\<lparr>localStorage := localStorage (switchTheme ''auto'' samplePage)\<rparr>)) = Some ''auto''
   \<and> rootStyle (constructor (samplePage\<lparr>localStorage := localStorage (switchTheme ''auto'' samplePage)\<rparr>))
        ''--primary-color'' = Some ''#2563eb''
   \<and> schemeListeners (constructor (samplePage\<lparr>localStorage := localStorage (switchTheme ''auto'' samplePage)\<rparr>)) = []"
  by (simp add: switchTheme_def enableAutoTheme_def switchTheme_concrete_def applyTheme_def
        constructor_def init_def loadSavedSettings_def samplePage_def Let_def)

subsection \<open>Inbound messages\<close>

text \<open>
  Claim C4 at three payloads, on a page with the price element present: text the parser
  rejects, a \<open>price_update\<close> without a price, and \<open>null\<close>. Each time the exception leaves
  the handler and nothing is logged; a message of an unknown type is ignored. The poll
  catches the same failures and logs them.
\<close>

theorem malformed_message_throws:
  "onmessage (\<lambda>text. None) ''{'' sampleDash = Inl (SyntaxError, sampleDash)
   \<and> onmessage (\<lambda>text. Some (Obj [(''type'', Str ''price_update'')])) ''{}'' sampleDash =
       Inl (TypeError, sampleDash)
   \<and> handleWebSocketMessage Null sampleDash = Inl (TypeError, sampleDash)
   \<and> handleWebSocketMessage (Obj [(''type'', Str ''heartbeat'')]) sampleDash = Inr sampleDash
   \<and> TradingDashboard_updateDashboardData (Inl SyntaxError) sampleDash =
       sampleDash\<lparr>console := [''Failed to update dashboard data:'']\<rparr>
   \<and> TradingDashboard_updateDashboardData (Inr (Obj [])) sampleDash =
       sampleDash\<lparr>console := [''Failed to update dashboard data:'']\<rparr>"
  by (simp add: onmessage_def handleWebSocketMessage_def withProp_def updatePriceDisplay_def
        TradingDashboard_updateDashboardData_def updateDashboardData_try_def sampleDash_def)

subsection \<open>The scalar cells\<close>








subsection \<open>Notifications\<close>















end
